theory Spec2Isabelle
  imports Complex_Main "HOL-Library.Sublist"
begin

section \<open>CardiacStrainLogic: values, errors and library functions\<close>

text \<open>
  The module under verification is \<^verbatim>\<open>CardiacStrain/Logic/CardiacStrainLogic.py\<close>.
  Its numeric arrays hold float64 values. A finite value is idealised as a real number
  (rounding and overflow are not represented); the three special values are kept,
  because numpy produces NaN for the mean of an empty selection and NaN then spreads
  through every later operation.
\<close>

datatype fl = Fin real | PInf | NInf | NaN










text \<open>Exceptions of the Python run time and of the external services the module calls.\<close>

datatype error =
    KeyError
  | IndexError
  | ValueError
  | AttributeError
  | TypeError
  | ExternalError string

section \<open>Strain aggregation and temporal post-processing (\<^verbatim>\<open>getStrain\<close>)\<close>


type_synonym matrix = "fl list list"


















section \<open>AHA classifier: slice bands and angular sectors (\<^verbatim>\<open>_add16segments\<close>)\<close>

type_synonym 'a slice = "'a list list"
type_synonym 'a volume = "'a list list list"

text \<open>
  \<^verbatim>\<open>int(round(x))\<close>: Python rounds a float to the nearest integer, a tie to the even
  one.
\<close>

definition py_round :: "real \<Rightarrow> int" where
  "py_round x =
     (let f = \<lfloor>x\<rfloor>; d = x - of_int f
      in if d < 1 / 2 then f else if 1 / 2 < d then f + 1 else if even f then f else f + 1)"

text \<open>
  Lines 321-322 multiply the slice count by the float64 constants \<^verbatim>\<open>0.35\<close> and
  \<^verbatim>\<open>0.70\<close>. Both constants have the 53-bit mantissa 6305039478318694; the first is
  that mantissa divided by \<open>2 ^ 54\<close>, the second by \<open>2 ^ 53\<close>, each a little below the
  decimal fraction. The product of the count and the mantissa is rounded to 53 bits,
  to the nearest and a tie to the even mantissa, as the hardware does:
  \<open>mantissa_shift\<close> is the number of low bits that do not fit and \<open>round_shift\<close> drops
  them.
\<close>

function mantissa_shift :: "int \<Rightarrow> nat" where
  "mantissa_shift p = (if p < 2 ^ 53 then 0 else Suc (mantissa_shift (p div 2)))"
  by pat_completeness auto
termination
  by (relation "measure nat") auto

declare mantissa_shift.simps [simp del]

definition round_shift :: "int \<Rightarrow> nat \<Rightarrow> int" where
  "round_shift p s =
     (let q = p div 2 ^ s; r = p mod 2 ^ s; half = 2 ^ s div 2
      in if s = 0 then p
         else if r < half then q
         else if half < r then q + 1
         else if even q then q else q + 1)"

text \<open>The float64 product of the count \<open>n\<close> and the constant \<open>m / 2 ^ k\<close>.\<close>

definition float_mul_count :: "nat \<Rightarrow> int \<Rightarrow> nat \<Rightarrow> real" where
  "float_mul_count n m k =
     (let p = int n * m; s = mantissa_shift p
      in real_of_int (round_shift p s) * 2 ^ s / 2 ^ k)"

text \<open>Lines 321-322, with \<open>n = lvCenter.shape[0]\<close>, the number of slices bearing myocardium.\<close>

definition zBase :: "nat \<Rightarrow> int" where
  "zBase n = py_round (float_mul_count n 6305039478318694 54)"

definition zMid :: "nat \<Rightarrow> int" where
  "zMid n = py_round (float_mul_count n 6305039478318694 53)"

text \<open>Lines 324-332.\<close>

definition anglesBaseMid :: "(real \<times> real) list" where
  "anglesBaseMid = [(-120, -60), (-180, -120), (120, 180), (60, 120), (0, 60), (-60, 0)]"

definition anglesAppex :: "(real \<times> real) list" where
  "anglesAppex = [(-135, -45), (135, 180), (45, 135), (-45, 45)]"

text \<open>Lines 340-345: the segment numbers and the angle table of the slice at list index \<open>idz\<close>.\<close>

definition slice_tables :: "nat \<Rightarrow> nat \<Rightarrow> nat list \<times> (real \<times> real) list" where
  "slice_tables n idz =
     (if int idz < zBase n then ([1..<7], anglesBaseMid)
      else if zBase n < int idz \<and> int idz < zMid n then ([7..<13], anglesBaseMid)
      else ([13..<17], anglesAppex))"

text \<open>
  Lines 347-352 for one voxel, whose angle is \<open>ang\<close> and whose label so far is \<open>lab\<close>:
  one pass of the loop body writes the segment when the angle lies between the two
  limits, both included, and the table entry that starts at 135 also writes it for
  angles from -180 to -135.
\<close>

definition sector_step :: "real \<Rightarrow> nat \<Rightarrow> nat \<times> real \<times> real \<Rightarrow> nat" where
  "sector_step ang lab sl =
     (case sl of (ahaSeg, lo, hi) \<Rightarrow>
        (let lab1 = (if lo \<le> ang \<and> ang \<le> hi then ahaSeg else lab)
         in if lo = 135 then (if -180 \<le> ang \<and> ang \<le> -135 then ahaSeg else lab1) else lab1))"

text \<open>The loop over \<^verbatim>\<open>zip(ahaSegs, anglesLimits)\<close>: later entries overwrite earlier ones.\<close>

definition assign_sectors :: "nat list \<times> (real \<times> real) list \<Rightarrow> real \<Rightarrow> nat \<Rightarrow> nat" where
  "assign_sectors tables ang lab =
     (case tables of (ahaSegs, anglesLimits) \<Rightarrow>
        foldl (sector_step ang) lab (zip ahaSegs anglesLimits))"

text \<open>The label a voxel of slice \<open>idz\<close> with angle \<open>ang\<close> gets in the zeroed map.\<close>

definition voxel_label :: "nat \<Rightarrow> nat \<Rightarrow> real \<Rightarrow> nat" where
  "voxel_label n idz ang = assign_sectors (slice_tables n idz) ang 0"

section \<open>AHA classifier: the apical cap (\<^verbatim>\<open>_add17segment\<close>)\<close>

definition slice_any :: "('a \<Rightarrow> bool) \<Rightarrow> 'a slice \<Rightarrow> bool" where
  "slice_any P s = list_ex (list_ex P) s"

text \<open>
  \<^verbatim>\<open>np.where(z)[0][[0, -1]]\<close> takes the first and the last index at which \<open>z\<close> holds
  and raises IndexError when there is none; only the first index is used.
\<close>

fun first_index :: "bool list \<Rightarrow> nat option" where
  "first_index [] = None"
| "first_index (b # bs) = (if b then Some 0 else map_option Suc (first_index bs))"

text \<open>
  \<^verbatim>\<open>scipy.ndimage.binary_fill_holes\<close> on one slice: the library grows, from outside
  the image and through the background only, the set of pixels connected to the border
  by steps to the four neighbours, until nothing changes; the filled mask is its
  complement. As many growth steps as the slice has pixels reach the fixed point.
\<close>

definition cell_or_border :: "bool slice \<Rightarrow> int \<Rightarrow> int \<Rightarrow> bool" where
  "cell_or_border s y x =
     (if 0 \<le> y \<and> y < int (length s) \<and> 0 \<le> x \<and> x < int (length (s ! nat y))
      then s ! nat y ! nat x else True)"

definition dilate_masked :: "bool slice \<Rightarrow> bool slice \<Rightarrow> bool slice" where
  "dilate_masked inp reach =
     map (\<lambda>y. map (\<lambda>x. \<not> inp ! y ! x \<and>
                        (reach ! y ! x
                         \<or> cell_or_border reach (int y - 1) (int x)
                         \<or> cell_or_border reach (int y + 1) (int x)
                         \<or> cell_or_border reach (int y) (int x - 1)
                         \<or> cell_or_border reach (int y) (int x + 1)))
                 [0..<length (inp ! y)])
         [0..<length inp]"

definition binary_fill_holes :: "bool slice \<Rightarrow> bool slice" where
  "binary_fill_holes inp =
     map (map Not)
       ((dilate_masked inp ^^ length (concat inp)) (map (map (\<lambda>_. False)) inp))"

text \<open>
  Lines 355-362: \<^verbatim>\<open>Iendo\<close> is the filled mask minus the mask, as int8. The fill is a
  parameter \<open>fill\<close> of the model, so that what is proved of \<^verbatim>\<open>_add17segment\<close> holds
  for any fill; the library function above instantiates it.
\<close>

definition endo_volume :: "(bool slice \<Rightarrow> bool slice) \<Rightarrow> bool volume \<Rightarrow> int volume" where
  "endo_volume fill myo =
     map (\<lambda>s. map2 (map2 (\<lambda>e m. of_bool e - of_bool m)) (fill s) s) myo"

text \<open>Line 369: \<^verbatim>\<open>17 * (Iendo_minz > 0)\<close>.\<close>

definition cap_slice :: "int slice \<Rightarrow> nat slice" where
  "cap_slice Iendo_minz = map (map (\<lambda>v. 17 * of_bool (0 < v))) Iendo_minz"

text \<open>
  Lines 363-369. \<^verbatim>\<open>ahaLv\<close> has the shape of \<^verbatim>\<open>myo\<close> (it is created by
  \<^verbatim>\<open>np.zeros_like(myo)\<close>), so every index of the loop is a slice of it.
\<close>

definition add17segment ::
  "(bool slice \<Rightarrow> bool slice) \<Rightarrow> bool volume \<Rightarrow> nat volume \<Rightarrow> error + nat volume" where
  "add17segment fill myo ahaLv =
     (let Iendo = endo_volume fill myo
      in case first_index (map (slice_any (\<lambda>v. v \<noteq> 0)) Iendo) of
           None \<Rightarrow> Inl IndexError
         | Some zmin_endo \<Rightarrow>
             (case first_index (map (slice_any (\<lambda>b. b)) myo) of
                None \<Rightarrow> Inl IndexError
              | Some zmin_myo \<Rightarrow>
                  Inr (foldl (\<lambda>a z. a[z := cap_slice (Iendo ! zmin_endo)]) ahaLv
                         [zmin_myo..<zmin_endo])))"

text \<open>
  A small stack: two slices of solid myocardium below a slice with a cavity, and the
  label map that gives every myocardial voxel the label \<open>l\<close>.
\<close>

definition solid3 :: "bool slice" where
  "solid3 = [[True, True, True], [True, True, True], [True, True, True]]"

definition ring3 :: "bool slice" where
  "ring3 = [[True, True, True], [True, False, True], [True, True, True]]"

definition labels_of :: "nat \<Rightarrow> bool slice \<Rightarrow> nat slice" where
  "labels_of l s = map (map (\<lambda>b. l * of_bool b)) s"

section \<open>Through-plane orientation (\<^verbatim>\<open>getLocalCoords\<close>, \<^verbatim>\<open>_lvCenter\<close>)\<close>

text \<open>\<^verbatim>\<open>(segArray == rvLabel).sum(axis=(1, 2))\<close>, for one slice.\<close>

definition count_label :: "int \<Rightarrow> int slice \<Rightarrow> nat" where
  "count_label l s = sum_list (map (\<lambda>row. length (filter (\<lambda>v. v = l) row)) s)"

text \<open>
  \<^verbatim>\<open>np.argmax\<close>: the first index of the maximum; ValueError on an empty array.
\<close>

fun argmax_from :: "nat \<Rightarrow> nat \<Rightarrow> nat \<Rightarrow> nat list \<Rightarrow> nat" where
  "argmax_from best bestv i [] = best"
| "argmax_from best bestv i (x # xs) =
     (if bestv < x then argmax_from i x (Suc i) xs else argmax_from best bestv (Suc i) xs)"

definition np_argmax :: "nat list \<Rightarrow> error + nat" where
  "np_argmax xs = (case xs of [] \<Rightarrow> Inl ValueError | x # rest \<Rightarrow> Inr (argmax_from 0 x 1 rest))"

definition maxRv :: "int volume \<Rightarrow> int \<Rightarrow> error + nat" where
  "maxRv segArray rvLabel = np_argmax (map (count_label rvLabel) segArray)"

text \<open>
  Lines 142-146 of \<^verbatim>\<open>getLocalCoords\<close>: the flag and the longitudinal axis
  \<^verbatim>\<open>[0, 0, -1 if isInverted else 1]\<close> written to every myocardial voxel. There
  \<^verbatim>\<open>segArray\<close> is the resampled volume, which has 16 slices.
\<close>

definition getLocalCoords_isInverted :: "int volume \<Rightarrow> int \<Rightarrow> error + bool" where
  "getLocalCoords_isInverted segArray rvLabel =
     (case maxRv segArray rvLabel of
        Inl e \<Rightarrow> Inl e
      | Inr m \<Rightarrow> Inr (m < length segArray div 2))"

definition c_l :: "bool \<Rightarrow> int \<times> int \<times> int" where
  "c_l isInverted = (0, 0, if isInverted then - 1 else 1)"

definition getLocalCoords_c_l :: "int volume \<Rightarrow> int \<Rightarrow> error + int \<times> int \<times> int" where
  "getLocalCoords_c_l segArray rvLabel =
     (case getLocalCoords_isInverted segArray rvLabel of
        Inl e \<Rightarrow> Inl e
      | Inr isInverted \<Rightarrow> Inr (c_l isInverted))"

text \<open>Lines 299-300 of \<^verbatim>\<open>_lvCenter\<close>: the same slice index, the opposite comparison.\<close>

definition lvCenter_isInverted :: "int volume \<Rightarrow> int \<Rightarrow> error + bool" where
  "lvCenter_isInverted segArray rvLabel =
     (case maxRv segArray rvLabel of
        Inl e \<Rightarrow> Inl e
      | Inr m \<Rightarrow> Inr (length segArray div 2 < m))"

text \<open>
  \<^verbatim>\<open>_lvCenter\<close>, lines 292-311. The in-plane crop (lines 296-298) and scipy's
  \<^verbatim>\<open>center_of_mass\<close> are parameters; the crop keeps the number of slices. The loop
  runs from the last slice down to slice 0 and keeps the slices that bear myocardium.
  When no slice does, the array is one-dimensional and empty, and reversing it with
  \<^verbatim>\<open>lvCenter[::-1, :]\<close> raises IndexError.
\<close>

definition lvCenter_rows ::
  "(bool slice \<Rightarrow> 'c) \<Rightarrow> bool volume \<Rightarrow> bool \<Rightarrow> 'c \<Rightarrow> (nat \<times> 'c) list" where
  "lvCenter_rows center_of_mass myo by_slice cm =
     map (\<lambda>z. (z, if by_slice then center_of_mass (myo ! z) else cm))
       (filter (\<lambda>z. slice_any (\<lambda>b. b) (myo ! z)) (rev [0..<length myo]))"

definition lvCenter ::
  "(bool volume \<Rightarrow> bool volume) \<Rightarrow> (bool slice \<Rightarrow> 'c) \<Rightarrow> int volume \<Rightarrow> int \<Rightarrow> int \<Rightarrow> bool
     \<Rightarrow> error + (nat \<times> 'c) list" where
  "lvCenter cropROI center_of_mass segArray myoLabel rvLabel by_slice =
     (let myo = cropROI (map (map (map (\<lambda>v. v = myoLabel))) segArray)
      in case lvCenter_isInverted segArray rvLabel of
           Inl e \<Rightarrow> Inl e
         | Inr isInverted \<Rightarrow>
             (let mid = nat (py_round (real (length myo) / 2))
              in if length myo \<le> mid then Inl IndexError
                 else (let rows = lvCenter_rows center_of_mass myo by_slice
                                    (center_of_mass (myo ! mid))
                       in if isInverted then (if rows = [] then Inl IndexError else Inr (rev rows))
                          else Inr rows)))"

text \<open>A segmentation of 16 slices of one voxel each, all myocardium (label 2).\<close>

definition seg_no_rv :: "int volume" where
  "seg_no_rv = replicate 16 [[2]]"

section \<open>The computation cache and the pipeline (\<^verbatim>\<open>runStrainPipeline\<close>, \<^verbatim>\<open>getMotion\<close>)\<close>

text \<open>
  \<^verbatim>\<open>self._cache\<close> is one dictionary. Its keys are the string \<^verbatim>\<open>"model"\<close> and
  the pairs \<^verbatim>\<open>("motion", seqId)\<close>, \<^verbatim>\<open>("aha", seqId)\<close>, \<^verbatim>\<open>("strain", seqId)\<close>,
  where \<^verbatim>\<open>seqId\<close> is the identifier string of the sequence node. Its values are the
  loaded model, the list of displacement fields, the pair of label map and local
  coordinates, and the triple of strain matrices.
\<close>

type_synonym seqid = string
type_synonym strain = "matrix \<times> matrix \<times> matrix"

datatype key = Name string | Tagged string seqid

datatype ('m, 'd, 'a, 'c) artifact =
    Model 'm
  | Motion "'d list"
  | Aha 'a 'c
  | Strain strain

text \<open>
  The state of the logic object: the cache and the parameter node (the two node
  references, by identifier, absent when unset; the two label parameters, absent when
  their text is not an integer, for which \<^verbatim>\<open>int()\<close> raises ValueError; the status
  text and the \<^verbatim>\<open>hasStrain\<close> flag). Two counters are added to observe the run: the
  number of models loaded and the number of calls of the motion estimator.
\<close>

record ('m, 'd, 'a, 'c) logic =
  cache :: "key \<rightharpoonup> ('m, 'd, 'a, 'c) artifact"
  ImgSequence :: "seqid option"
  SegSequence :: "string option"
  MyoLabel :: "int option"
  RVLabel :: "int option"
  Status :: string
  hasStrain :: string
  model_loads :: nat
  estimator_calls :: nat

text \<open>
  What the pipeline calls and does not compute itself, each of which may raise:
  \<^verbatim>\<open>keras.models.load_model(self.modelPath)\<close>; the number of frames of a sequence; the
  preparation of the image volume (lines 107-120); one call of the motion model on the
  reference frame and frame \<open>t\<close>, with its smoothing (lines 124-129); and the three
  stages \<^verbatim>\<open>getLocalCoords\<close>, \<^verbatim>\<open>getAhaModel\<close> and \<^verbatim>\<open>getStrain\<close>, taken
  here as functions of their arguments.
\<close>

record ('m, 'v, 'd, 'a, 'c) env =
  load_model :: "error + 'm"
  GetNumberOfDataNodes :: "seqid \<Rightarrow> nat"
  preprocess :: "seqid \<Rightarrow> string option \<Rightarrow> int \<Rightarrow> int \<Rightarrow> error + 'v"
  motionModel :: "'m \<Rightarrow> 'v \<Rightarrow> nat \<Rightarrow> error + 'd"
  stage_getLocalCoords :: "string option \<Rightarrow> int \<Rightarrow> int \<Rightarrow> error + 'c"
  stage_getAhaModel :: "string option \<Rightarrow> int \<Rightarrow> int \<Rightarrow> error + 'a"
  stage_getStrain :: "'d list \<Rightarrow> 'a \<Rightarrow> 'c \<Rightarrow> error + strain"

text \<open>Lines 103-105: the model is loaded when the cache has no \<^verbatim>\<open>"model"\<close> entry.\<close>

definition ensure_model ::
  "('m, 'v, 'd, 'a, 'c) env \<Rightarrow> ('m, 'd, 'a, 'c) logic \<Rightarrow> error + ('m, 'd, 'a, 'c) logic" where
  "ensure_model e s =
     (if cache s (Name ''model'') = None
      then (case load_model e of
              Inl err \<Rightarrow> Inl err
            | Inr m \<Rightarrow> Inr (s\<lparr>cache := (cache s)(Name ''model'' \<mapsto> Model m),
                               model_loads := model_loads s + 1\<rparr>))
      else Inr s)"

text \<open>Lines 122-130: one call of the estimator per frame, stopping at the first that raises.\<close>

fun motion_loop ::
  "('m, 'v, 'd, 'a, 'c) env \<Rightarrow> 'm \<Rightarrow> 'v \<Rightarrow> nat list \<Rightarrow> 'd list \<Rightarrow> ('m, 'd, 'a, 'c) logic
     \<Rightarrow> (error + 'd list) \<times> ('m, 'd, 'a, 'c) logic" where
  "motion_loop e m V [] motion s = (Inr motion, s)"
| "motion_loop e m V (t # ts) motion s =
     (case motionModel e m V t of
        Inl err \<Rightarrow> (Inl err, s\<lparr>estimator_calls := estimator_calls s + 1\<rparr>)
      | Inr df \<Rightarrow>
          motion_loop e m V ts (motion @ [df]) (s\<lparr>estimator_calls := estimator_calls s + 1\<rparr>))"

definition getMotion ::
  "('m, 'v, 'd, 'a, 'c) env \<Rightarrow> ('m, 'd, 'a, 'c) logic \<Rightarrow> seqid \<Rightarrow> string option \<Rightarrow> int \<Rightarrow> int
     \<Rightarrow> (error + 'd list) \<times> ('m, 'd, 'a, 'c) logic" where
  "getMotion e s sequence segmentation rvLabel myoLabel =
     (case ensure_model e s of
        Inl err \<Rightarrow> (Inl err, s)
      | Inr s1 \<Rightarrow>
          (case cache s1 (Name ''model'') of
             Some (Model m) \<Rightarrow>
               (case preprocess e sequence segmentation rvLabel myoLabel of
                  Inl err \<Rightarrow> (Inl err, s1)
                | Inr V \<Rightarrow> motion_loop e m V [0..<GetNumberOfDataNodes e sequence] [] s1)
           | _ \<Rightarrow> (Inl TypeError, s1)))"

text \<open>Lines 86-99, the body of the \<^verbatim>\<open>if\<close>: the stages and the three cache writes.\<close>

definition compute_strain ::
  "('m, 'v, 'd, 'a, 'c) env \<Rightarrow> ('m, 'd, 'a, 'c) logic \<Rightarrow> seqid \<Rightarrow> string option \<Rightarrow> int \<Rightarrow> int
     \<Rightarrow> (error + unit) \<times> ('m, 'd, 'a, 'c) logic" where
  "compute_strain e s seqId segmentation myoLabel rvLabel =
     (case getMotion e (s\<lparr>Status := ''Measuring Motion''\<rparr>) seqId segmentation rvLabel myoLabel of
        (Inl err, s1) \<Rightarrow> (Inl err, s1)
      | (Inr motion, s1) \<Rightarrow>
          (let s2 = s1\<lparr>cache := (cache s1)(Tagged ''motion'' seqId \<mapsto> Motion motion),
                       Status := ''Analyzing strain''\<rparr>
           in case stage_getLocalCoords e segmentation myoLabel rvLabel of
                Inl err \<Rightarrow> (Inl err, s2)
              | Inr localCoords \<Rightarrow>
                  (case stage_getAhaModel e segmentation myoLabel rvLabel of
                     Inl err \<Rightarrow> (Inl err, s2)
                   | Inr aha \<Rightarrow>
                       (let s3 = s2\<lparr>cache := (cache s2)(Tagged ''aha'' seqId \<mapsto> Aha aha localCoords)\<rparr>
                        in case stage_getStrain e motion aha localCoords of
                             Inl err \<Rightarrow> (Inl err, s3)
                           | Inr st \<Rightarrow>
                               (Inr (),
                                s3\<lparr>cache := (cache s3)(Tagged ''strain'' seqId \<mapsto> Strain st),
                                   Status := ''Ready for plotting'',
                                   hasStrain := ''True''\<rparr>)))))"

text \<open>Line 100: \<^verbatim>\<open>self._cache[("strain", seqId)]\<close>.\<close>

definition fetch_strain ::
  "('m, 'd, 'a, 'c) logic \<Rightarrow> seqid \<Rightarrow> error + ('m, 'd, 'a, 'c) artifact" where
  "fetch_strain s seqId =
     (case cache s (Tagged ''strain'' seqId) of None \<Rightarrow> Inl KeyError | Some a \<Rightarrow> Inr a)"

text \<open>
  \<^verbatim>\<open>runStrainPipeline\<close>, lines 78-100. The labels are parsed first, then the
  identifier of the sequence node is read, which raises when no sequence is selected.
\<close>

definition runStrainPipeline ::
  "('m, 'v, 'd, 'a, 'c) env \<Rightarrow> ('m, 'd, 'a, 'c) logic
     \<Rightarrow> (error + ('m, 'd, 'a, 'c) artifact) \<times> ('m, 'd, 'a, 'c) logic" where
  "runStrainPipeline e s =
     (case MyoLabel s of
        None \<Rightarrow> (Inl ValueError, s)
      | Some myoLabel \<Rightarrow>
          (case RVLabel s of
             None \<Rightarrow> (Inl ValueError, s)
           | Some rvLabel \<Rightarrow>
               (case ImgSequence s of
                  None \<Rightarrow> (Inl AttributeError, s)
                | Some seqId \<Rightarrow>
                    if cache s (Tagged ''strain'' seqId) = None
                    then (case compute_strain e s seqId (SegSequence s) myoLabel rvLabel of
                            (Inl err, s1) \<Rightarrow> (Inl err, s1)
                          | (Inr u, s1) \<Rightarrow> (fetch_strain s1 seqId, s1))
                    else (fetch_strain s seqId, s))))"

text \<open>
  The life of one logic object: it starts with an empty cache (line 32) and the default
  parameters; each step selects nodes and labels in the parameter node and runs the
  pipeline, in an environment that may differ from step to step. The cache is an
  attribute of the object, and the widget creates a new object whenever it is set up
  (\<^verbatim>\<open>initializeLogic\<close>), so a process holds a list of such lives.
\<close>

definition init_logic :: "('m, 'd, 'a, 'c) logic" where
  "init_logic =
     \<lparr>cache = Map.empty, ImgSequence = None, SegSequence = None, MyoLabel = Some 2,
      RVLabel = Some 1, Status = ''Load images to start.'', hasStrain = ''False'',
      model_loads = 0, estimator_calls = 0\<rparr>"

definition select_and_run ::
  "('m, 'd, 'a, 'c) logic
     \<Rightarrow> ('m, 'v, 'd, 'a, 'c) env \<times> seqid option \<times> string option \<times> int option \<times> int option
     \<Rightarrow> ('m, 'd, 'a, 'c) logic" where
  "select_and_run s step =
     (case step of (e, img, seg, myo, rv) \<Rightarrow>
        snd (runStrainPipeline e
               (s\<lparr>ImgSequence := img, SegSequence := seg, MyoLabel := myo, RVLabel := rv\<rparr>)))"

definition object_lifetime ::
  "(('m, 'v, 'd, 'a, 'c) env \<times> seqid option \<times> string option \<times> int option \<times> int option) list
     \<Rightarrow> ('m, 'd, 'a, 'c) logic" where
  "object_lifetime steps = foldl select_and_run init_logic steps"

definition process_loads ::
  "(('m, 'v, 'd, 'a, 'c) env \<times> seqid option \<times> string option \<times> int option \<times> int option) list list
     \<Rightarrow> nat" where
  "process_loads objects =
     sum_list (map (\<lambda>steps. model_loads (object_lifetime steps :: ('m, 'd, 'a, 'c) logic)) objects)"

section \<open>The query interface (\<^verbatim>\<open>getStrainSeries\<close>, \<^verbatim>\<open>getCalculatedResult\<close>)\<close>








section \<open>Predicates and sample data used in the statements\<close>



text \<open>
  The cache as lines 103-104 leave it: with the loaded model added when there was no
  \<^verbatim>\<open>"model"\<close> entry and the load returned, and as it was otherwise.
\<close>

definition cache_after_model ::
  "('m, 'v, 'd, 'a, 'c) env \<Rightarrow> ('m, 'd, 'a, 'c) logic \<Rightarrow> key \<rightharpoonup> ('m, 'd, 'a, 'c) artifact" where
  "cache_after_model e s =
     (if cache s (Name ''model'') = None
      then (case load_model e of
              Inl err \<Rightarrow> cache s
            | Inr m \<Rightarrow> (cache s)(Name ''model'' \<mapsto> Model m))
      else cache s)"

text \<open>
  What a run that computes leaves behind. \<open>estimated_motion\<close> is the list of the
  estimator's results on the frames \<open>0 .. n - 1\<close>. \<open>fresh_run\<close> says that the run from
  \<open>s\<close> to \<open>s'\<close> with result \<open>r\<close> performed every stage: the model is the cached one or
  a newly loaded one, the volume was prepared, the estimator returned on every frame, the
  three stages returned, the result is the strain computed from exactly these, the four
  cache entries hold exactly these artifacts, and the estimator was called once per
  frame.
\<close>

definition estimated_motion :: "('m, 'v, 'd, 'a, 'c) env \<Rightarrow> 'm \<Rightarrow> 'v \<Rightarrow> nat \<Rightarrow> 'd list" where
  "estimated_motion e m V n = map (\<lambda>t. projr (motionModel e m V t)) [0..<n]"

definition fresh_run ::
  "('m, 'v, 'd, 'a, 'c) env \<Rightarrow> ('m, 'd, 'a, 'c) logic \<Rightarrow> seqid \<Rightarrow> int \<Rightarrow> int
     \<Rightarrow> ('m, 'd, 'a, 'c) artifact \<Rightarrow> ('m, 'd, 'a, 'c) logic \<Rightarrow> bool" where
  "fresh_run e s seqId myoLabel rvLabel r s' \<longleftrightarrow>
     (\<exists>m V lc aha st.
        (cache s (Name ''model'') = Some (Model m)
         \<or> cache s (Name ''model'') = None \<and> load_model e = Inr m)
      \<and> preprocess e seqId (SegSequence s) rvLabel myoLabel = Inr V
      \<and> list_all (\<lambda>t. \<not> isl (motionModel e m V t)) [0..<GetNumberOfDataNodes e seqId]
      \<and> stage_getLocalCoords e (SegSequence s) myoLabel rvLabel = Inr lc
      \<and> stage_getAhaModel e (SegSequence s) myoLabel rvLabel = Inr aha
      \<and> stage_getStrain e (estimated_motion e m V (GetNumberOfDataNodes e seqId)) aha lc = Inr st
      \<and> r = Strain st
      \<and> cache s' =
            (cache s)(Name ''model'' \<mapsto> Model m,
                      Tagged ''motion'' seqId \<mapsto>
                        Motion (estimated_motion e m V (GetNumberOfDataNodes e seqId)),
                      Tagged ''aha'' seqId \<mapsto> Aha aha lc,
                      Tagged ''strain'' seqId \<mapsto> Strain st)
      \<and> estimator_calls s' = estimator_calls s + GetNumberOfDataNodes e seqId)"

text \<open>
  The results of the runs of one logic object, each with the sequence that was selected
  for it, and whether some run for the sequence \<open>seqId\<close> has returned a result: this is
  what it is for the pipeline to have completed for \<open>seqId\<close>.
\<close>

fun lifetime_results ::
  "('m, 'd, 'a, 'c) logic
     \<Rightarrow> (('m, 'v, 'd, 'a, 'c) env \<times> seqid option \<times> string option \<times> int option \<times> int option) list
     \<Rightarrow> (seqid option \<times> (error + ('m, 'd, 'a, 'c) artifact)) list" where
  "lifetime_results s [] = []"
| "lifetime_results s (step # steps) =
     (case step of (e, img, seg, myo, rv) \<Rightarrow>
        (img, fst (runStrainPipeline e
                     (s\<lparr>ImgSequence := img, SegSequence := seg, MyoLabel := myo, RVLabel := rv\<rparr>))))
     # lifetime_results (select_and_run s step) steps"

definition completed_for ::
  "seqid
     \<Rightarrow> (('m, 'v, 'd, 'a, 'c) env \<times> seqid option \<times> string option \<times> int option \<times> int option) list
     \<Rightarrow> bool" where
  "completed_for seqId steps \<longleftrightarrow>
     list_ex (\<lambda>(img, r). img = Some seqId \<and> \<not> isl r)
       (lifetime_results (init_logic :: ('m, 'd, 'a, 'c) logic) steps)"

text \<open>
  A strain triple whose matrices have 18 rows and 3 samples, zero except for the middle
  sample of rows 6, 13 and 17; an environment of stubs in which the sequence has two frames and
  \<^verbatim>\<open>getLocalCoords\<close> raises on demand, and one in which \<^verbatim>\<open>getStrain\<close>
  raises; a logic object with a sequence and a segmentation selected; and the states
  that the failing runs and a successful run leave.
\<close>

definition demo_matrix :: matrix where
  "demo_matrix =
     replicate 6 [Fin 0, Fin 0, Fin 0] @ [[Fin 0, Fin 7, Fin 0]]
     @ replicate 6 [Fin 0, Fin 0, Fin 0] @ [[Fin 0, Fin 14, Fin 0]]
     @ replicate 3 [Fin 0, Fin 0, Fin 0] @ [[Fin 0, Fin 5, Fin 0]]"

definition demo_strain :: strain where
  "demo_strain = (demo_matrix, demo_matrix, demo_matrix)"

definition stub_env :: "bool \<Rightarrow> (unit, unit, nat, unit, unit) env" where
  "stub_env coords_fail =
     \<lparr>load_model = Inr (),
      GetNumberOfDataNodes = (\<lambda>_. 2),
      preprocess = (\<lambda>_ _ _ _. Inr ()),
      motionModel = (\<lambda>m V t. Inr t),
      stage_getLocalCoords =
        (\<lambda>_ _ _. if coords_fail then Inl (ExternalError ''getLocalCoords'') else Inr ()),
      stage_getAhaModel = (\<lambda>_ _ _. Inr ()),
      stage_getStrain = (\<lambda>_ _ _. Inr demo_strain)\<rparr>"

definition stub_env_strain_fails :: "(unit, unit, nat, unit, unit) env" where
  "stub_env_strain_fails =
     (stub_env False)\<lparr>stage_getStrain := (\<lambda>_ _ _. Inl (ExternalError ''getStrain''))\<rparr>"

definition ready_logic :: "(unit, nat, unit, unit) logic" where
  "ready_logic = init_logic\<lparr>ImgSequence := Some ''seq1'', SegSequence := Some ''seg1''\<rparr>"

definition failed_logic :: "(unit, nat, unit, unit) logic" where
  "failed_logic = snd (runStrainPipeline (stub_env True) ready_logic)"

definition strain_failed_logic :: "(unit, nat, unit, unit) logic" where
  "strain_failed_logic = snd (runStrainPipeline stub_env_strain_fails ready_logic)"

definition done_logic :: "(unit, nat, unit, unit) logic" where
  "done_logic = snd (runStrainPipeline (stub_env False) ready_logic)"

text \<open>The state after the failed run has been followed by a run in which no stage raises.\<close>

definition retried_logic :: "(unit, nat, unit, unit) logic" where
  "retried_logic = snd (runStrainPipeline (stub_env False) failed_logic)"

text \<open>The steps of the sample runs: the selection made in the parameter node, and the stubs.\<close>

definition failing_step ::
  "(unit, unit, nat, unit, unit) env \<times> seqid option \<times> string option \<times> int option \<times> int option" where
  "failing_step = (stub_env True, Some ''seq1'', Some ''seg1'', Some 2, Some 1)"

definition passing_step ::
  "(unit, unit, nat, unit, unit) env \<times> seqid option \<times> string option \<times> int option \<times> int option" where
  "passing_step = (stub_env False, Some ''seq1'', Some ''seg1'', Some 2, Some 1)"




section \<open>Properties of the strain computation\<close>















































section \<open>Properties of the AHA classifier\<close>

lemma upt_1_7: "[1..<7] = [1, 2, 3, 4, 5, 6]"
  by (simp add: upt_rec)

lemma upt_7_13: "[7..<13] = [7, 8, 9, 10, 11, 12]"
  by (simp add: upt_rec)

lemma upt_13_17: "[13..<17] = [13, 14, 15, 16]"
  by (simp add: upt_rec)

lemma shift_6: "mantissa_shift 37830236869912164 = 3"
  by (simp add: mantissa_shift.simps)

lemma zBase_6: "zBase 6 = 2"
  by (simp add: zBase_def float_mul_count_def shift_6 round_shift_def py_round_def Let_def)

lemma zMid_6: "zMid 6 = 4"
  by (simp add: zMid_def float_mul_count_def shift_6 round_shift_def py_round_def Let_def)

lemma basal_sectors:
  assumes "-180 \<le> ang" "ang \<le> 180"
  shows "assign_sectors ([1..<7], anglesBaseMid) ang lab =
     (if ang \<le> -120 then 2 else if ang < -60 then 1 else if ang \<le> 0 then 6
      else if ang \<le> 60 then 5 else if ang \<le> 120 then 4 else 3)"
  using assms unfolding assign_sectors_def prod.case upt_1_7 anglesBaseMid_def
  by (simp add: sector_step_def)

lemma mid_sectors:
  assumes "-180 \<le> ang" "ang \<le> 180"
  shows "assign_sectors ([7..<13], anglesBaseMid) ang lab =
     (if ang \<le> -120 then 8 else if ang < -60 then 7 else if ang \<le> 0 then 12
      else if ang \<le> 60 then 11 else if ang \<le> 120 then 10 else 9)"
  using assms unfolding assign_sectors_def prod.case upt_7_13 anglesBaseMid_def
  by (simp add: sector_step_def)

lemma apical_sectors:
  assumes "-180 \<le> ang" "ang \<le> 180"
  shows "assign_sectors ([13..<17], anglesAppex) ang lab =
     (if ang \<le> -135 then 14 else if ang < -45 then 13 else if ang \<le> 45 then 16
      else if ang \<le> 135 then 15 else 14)"
  using assms unfolding assign_sectors_def prod.case upt_13_17 anglesAppex_def
  by (simp add: sector_step_def)

text \<open>
  Claim C3. The claim gives the slices from the rounded 35% index up to the rounded 70%
  index the mid segments. The code tests \<^verbatim>\<open>zBase < idz\<close>, so the slice at index
  \<open>zBase\<close> itself falls through to the last branch: with six slices the boundaries are 2
  and 4, slice 1 is basal, slice 3 is mid, and slice 2 gets the apical table (an angle
  of 90 degrees is labelled 15).
\<close>

theorem add16segments_boundary_slice:
  "zBase 6 = 2 \<and> zMid 6 = 4
   \<and> slice_tables 6 1 = ([1..<7], anglesBaseMid)
   \<and> slice_tables 6 2 = ([13..<17], anglesAppex)
   \<and> slice_tables 6 3 = ([7..<13], anglesBaseMid)
   \<and> voxel_label 6 2 90 = 15"
proof -
  have t: "slice_tables 6 2 = ([13..<17], anglesAppex)"
    by (simp add: slice_tables_def zBase_6 zMid_6)
  have "voxel_label 6 2 90 = 15"
    unfolding voxel_label_def t using apical_sectors [of 90 0] by simp
  then show ?thesis
    by (simp add: slice_tables_def zBase_6 zMid_6)
qed

text \<open>
  Claim C4, as the code has it. Both limits of every table entry are included and a later
  entry overwrites an earlier one, so an angle on a shared boundary belongs to the entry
  that comes later in the table. For every angle that \<^verbatim>\<open>arctan2\<close> can return, and
  whatever the label was before:
  basal and mid slices: \<open>[-180, -120]\<close> gives 2/8, \<open>(-120, -60)\<close> 1/7, \<open>[-60, 0]\<close> 6/12,
  \<open>(0, 60]\<close> 5/11, \<open>(60, 120]\<close> 4/10, \<open>(120, 180]\<close> 3/9;
  apical slices: \<open>[-180, -135]\<close> and \<open>(135, 180]\<close> give 14, \<open>(-135, -45)\<close> 13,
  \<open>[-45, 45]\<close> 16, \<open>(45, 135]\<close> 15.
\<close>

theorem sectors_closed_intervals:
  assumes "-180 \<le> ang" and "ang \<le> 180"
  shows "assign_sectors ([1..<7], anglesBaseMid) ang lab =
           (if ang \<le> -120 then 2 else if ang < -60 then 1 else if ang \<le> 0 then 6
            else if ang \<le> 60 then 5 else if ang \<le> 120 then 4 else 3)
       \<and> assign_sectors ([7..<13], anglesBaseMid) ang lab =
           (if ang \<le> -120 then 8 else if ang < -60 then 7 else if ang \<le> 0 then 12
            else if ang \<le> 60 then 11 else if ang \<le> 120 then 10 else 9)
       \<and> assign_sectors ([13..<17], anglesAppex) ang lab =
           (if ang \<le> -135 then 14 else if ang < -45 then 13 else if ang \<le> 45 then 16
            else if ang \<le> 135 then 15 else 14)"
  using basal_sectors [OF assms] mid_sectors [OF assms] apical_sectors [OF assms]
  by (intro conjI)

theorem sectors_closed_intervals_witness:
  "(-180::real) \<le> 60 \<and> (60::real) \<le> 180
   \<and> assign_sectors ([1..<7], anglesBaseMid) 60 0 = 5
   \<and> assign_sectors ([7..<13], anglesBaseMid) 60 0 = 11
   \<and> assign_sectors ([13..<17], anglesAppex) 60 0 = 15"
proof -
  have h1: "(-180::real) \<le> 60" by simp
  have h2: "(60::real) \<le> 180" by simp
  from sectors_closed_intervals [OF h1 h2, of 0] show ?thesis by simp
qed

text \<open>
  The boundary cases named in the claim go the other way: -120 degrees is labelled 2 and
  8 (not 1 and 7), 120 degrees 4 and 10 (not 3 and 9), 0 degrees 6 and 12 (not 5 and 11),
  and on an apical slice -135 degrees is labelled 14 (not 13).
\<close>

theorem sectors_boundary_counterexample:
  "assign_sectors ([1..<7], anglesBaseMid) (-120) 0 = 2
   \<and> assign_sectors ([7..<13], anglesBaseMid) (-120) 0 = 8
   \<and> assign_sectors ([1..<7], anglesBaseMid) 120 0 = 4
   \<and> assign_sectors ([7..<13], anglesBaseMid) 120 0 = 10
   \<and> assign_sectors ([1..<7], anglesBaseMid) 0 0 = 6
   \<and> assign_sectors ([7..<13], anglesBaseMid) 0 0 = 12
   \<and> assign_sectors ([13..<17], anglesAppex) (-135) 0 = 14"
  using basal_sectors [of "-120" 0] mid_sectors [of "-120" 0]
    basal_sectors [of 120 0] mid_sectors [of 120 0]
    basal_sectors [of 0 0] mid_sectors [of 0 0] apical_sectors [of "-135" 0]
  by simp

lemma funpow_fixed: "f x = x \<Longrightarrow> (f ^^ n) x = x"
  by (induction n) simp_all

lemma dilate_ring3:
  "dilate_masked ring3 (map (map (\<lambda>_. False)) ring3) = map (map (\<lambda>_. False)) ring3"
  by (simp add: dilate_masked_def ring3_def cell_or_border_def upt_rec)

lemma dilate_solid3:
  "dilate_masked solid3 (map (map (\<lambda>_. False)) solid3) = map (map (\<lambda>_. False)) solid3"
  by (simp add: dilate_masked_def solid3_def cell_or_border_def upt_rec)

lemma fill_ring3: "binary_fill_holes ring3 = solid3"
  unfolding binary_fill_holes_def
    funpow_fixed [of "dilate_masked ring3" "map (map (\<lambda>_. False)) ring3", OF dilate_ring3]
  by (simp add: ring3_def solid3_def)

lemma fill_solid3: "binary_fill_holes solid3 = solid3"
  unfolding binary_fill_holes_def
    funpow_fixed [of "dilate_masked solid3" "map (map (\<lambda>_. False)) solid3", OF dilate_solid3]
  by (simp add: solid3_def)

lemma endo_solid3:
  "map2 (map2 (\<lambda>e m. of_bool e - of_bool m)) solid3 solid3 = [[0, 0, 0], [0, 0, 0], [0, 0, 0::int]]"
  by (simp add: solid3_def)

lemma endo_ring3:
  "map2 (map2 (\<lambda>e m. of_bool e - of_bool m)) solid3 ring3 = [[0, 0, 0], [0, 1, 0], [0, 0, 0::int]]"
  by (simp add: solid3_def ring3_def)

lemma endo_stack:
  "endo_volume binary_fill_holes [solid3, solid3, ring3] =
     [[[0, 0, 0], [0, 0, 0], [0, 0, 0]], [[0, 0, 0], [0, 0, 0], [0, 0, 0]],
      [[0, 0, 0], [0, 1, 0], [0, 0, 0]]]"
  by (simp add: endo_volume_def fill_ring3 fill_solid3 endo_solid3 endo_ring3)

lemma first_myo_stack: "first_index (map (slice_any (\<lambda>b. b)) [solid3, solid3, ring3]) = Some 0"
  by (simp add: slice_any_def solid3_def)

lemma first_endo_stack:
  "first_index (map (slice_any (\<lambda>v. v \<noteq> 0))
     (endo_volume binary_fill_holes [solid3, solid3, ring3])) = Some 2"
  by (simp add: endo_stack slice_any_def)

lemma add17segment_stack:
  "add17segment binary_fill_holes [solid3, solid3, ring3]
     (map (labels_of 16) [solid3, solid3, ring3]) =
   Inr [[[0, 0, 0], [0, 17, 0], [0, 0, 0]], [[0, 0, 0], [0, 17, 0], [0, 0, 0]],
        labels_of 16 ring3]"
  unfolding add17segment_def Let_def first_endo_stack first_myo_stack option.case
  unfolding endo_stack
  by (simp add: cap_slice_def upt_rec)

lemma foldl_update_length:
  "length (foldl (\<lambda>a z. a[z := c]) a zs) = length a"
  by (induction zs arbitrary: a) simp_all

lemma foldl_update_nth:
  "z < length a \<Longrightarrow>
   foldl (\<lambda>a z. a[z := c]) a [i..<j] ! z = (if i \<le> z \<and> z < j then c else a ! z)"
  by (induction j) (auto simp: nth_list_update foldl_update_length less_Suc_eq)

text \<open>
  Claim C8, as the code has it. When \<^verbatim>\<open>_add17segment\<close> returns, every slice from the
  first myocardium-bearing slice (included) up to the first cavity-bearing slice
  (excluded) is replaced by one and the same slice: 17 at the voxels where the cavity
  mask of the first cavity-bearing slice is positive and 0 at every other voxel. All
  other slices are left as they were.
\<close>

theorem add17segment_slices:
  assumes "add17segment fill myo ahaLv = Inr ahaLv'"
  shows "\<exists>zmin_myo zmin_endo.
           first_index (map (slice_any (\<lambda>b. b)) myo) = Some zmin_myo
         \<and> first_index (map (slice_any (\<lambda>v. v \<noteq> 0)) (endo_volume fill myo)) = Some zmin_endo
         \<and> length ahaLv' = length ahaLv
         \<and> (\<forall>z < length ahaLv. ahaLv' ! z =
              (if zmin_myo \<le> z \<and> z < zmin_endo
               then cap_slice (endo_volume fill myo ! zmin_endo)
               else ahaLv ! z))"
  using assms
  by (auto simp: add17segment_def Let_def foldl_update_nth foldl_update_length
      split: option.splits)

theorem add17segment_slices_witness:
  "add17segment binary_fill_holes [solid3, solid3, ring3]
     (map (labels_of 16) [solid3, solid3, ring3]) =
   Inr [[[0, 0, 0], [0, 17, 0], [0, 0, 0]], [[0, 0, 0], [0, 17, 0], [0, 0, 0]],
        labels_of 16 ring3]
   \<and> (\<exists>zmin_myo zmin_endo.
           first_index (map (slice_any (\<lambda>b. b)) [solid3, solid3, ring3]) = Some zmin_myo
         \<and> first_index (map (slice_any (\<lambda>v. v \<noteq> 0))
              (endo_volume binary_fill_holes [solid3, solid3, ring3])) = Some zmin_endo
         \<and> length [[[0, 0, 0], [0, 17, 0], [0, 0, 0]], [[0, 0, 0], [0, 17, 0], [0, 0, 0::nat]],
                    labels_of 16 ring3]
             = length (map (labels_of 16) [solid3, solid3, ring3])
         \<and> (\<forall>z < length (map (labels_of 16) [solid3, solid3, ring3]).
              [[[0, 0, 0], [0, 17, 0], [0, 0, 0]], [[0, 0, 0], [0, 17, 0], [0, 0, 0]],
               labels_of 16 ring3] ! z =
              (if zmin_myo \<le> z \<and> z < zmin_endo
               then cap_slice (endo_volume binary_fill_holes [solid3, solid3, ring3] ! zmin_endo)
               else map (labels_of 16) [solid3, solid3, ring3] ! z)))"
  using add17segment_slices [OF add17segment_stack] add17segment_stack by (intro conjI)

text \<open>
  The claim as stated fails on the stack of two solid slices under a slice with a
  cavity. The first myocardium-bearing slice is slice 0 and the first cavity-bearing
  slice is slice 2. Slice 1, the only one strictly between them, is not labelled 17 in
  full: it holds 17 at the centre voxel only and 0 at its eight myocardial voxels. Slice
  0, outside the strict range, receives label 17 as well.
\<close>

theorem add17segment_counterexample:
  "first_index (map (slice_any (\<lambda>b. b)) [solid3, solid3, ring3]) = Some 0
   \<and> first_index (map (slice_any (\<lambda>v. v \<noteq> 0))
        (endo_volume binary_fill_holes [solid3, solid3, ring3])) = Some 2
   \<and> add17segment binary_fill_holes [solid3, solid3, ring3]
        (map (labels_of 16) [solid3, solid3, ring3]) =
      Inr [[[0, 0, 0], [0, 17, 0], [0, 0, 0]], [[0, 0, 0], [0, 17, 0], [0, 0, 0]],
           [[16, 16, 16], [16, 0, 16], [16, 16, 16]]]"
  unfolding first_myo_stack first_endo_stack add17segment_stack
  by (simp add: labels_of_def ring3_def)

section \<open>Properties of the orientation flags\<close>

lemma py_round_half_less: "0 < n \<Longrightarrow> nat (py_round (real n / 2)) < n"
proof (cases "even n")
  case True
  assume "0 < n"
  from True obtain k where k: "n = 2 * k" by (auto elim: evenE)
  have "real n / 2 = of_int (int k)" by (simp add: k)
  then have "py_round (real n / 2) = int k"
    by (simp add: py_round_def Let_def)
  with \<open>0 < n\<close> k show ?thesis by simp
next
  case False
  then obtain k where k: "n = 2 * k + 1" by (auto elim: oddE)
  have x: "real n / 2 = of_int (int k) + 1 / 2" by (simp add: k field_simps)
  have fl: "\<lfloor>real n / 2\<rfloor> = int k"
    unfolding x by (simp add: floor_eq_iff)
  have "py_round (real n / 2) = (if even k then int k else int k + 1)"
    unfolding py_round_def Let_def fl by (simp add: x)
  then show ?thesis using k by (auto elim: oddE)
qed

lemma argmax_from_zeros: "list_all (\<lambda>x. x = 0) xs \<Longrightarrow> argmax_from best bestv i xs = best"
  by (induction xs arbitrary: i) simp_all

lemma np_argmax_zeros: "xs \<noteq> [] \<Longrightarrow> list_all (\<lambda>x. x = 0) xs \<Longrightarrow> np_argmax xs = Inr 0"
  by (cases xs) (simp_all add: np_argmax_def argmax_from_zeros)

lemma maxRv_no_rv:
  assumes "segArray \<noteq> []" "list_all (\<lambda>s. count_label rvLabel s = 0) segArray"
  shows "maxRv segArray rvLabel = Inr 0"
  unfolding maxRv_def using assms
  by (intro np_argmax_zeros) (simp_all add: list_all_iff)

text \<open>
  Claim C5, as the code has it. In a segmentation without right-ventricle voxels every
  slice has area 0 and \<^verbatim>\<open>argmax\<close> returns slice 0. \<^verbatim>\<open>_lvCenter\<close> tests
  \<^verbatim>\<open>maxRv > n // 2\<close>: its flag is false and the centroid list is returned in the
  order the loop builds it. \<^verbatim>\<open>getLocalCoords\<close> tests \<^verbatim>\<open>maxRv < n // 2\<close>: its
  flag is true as soon as the volume has two slices, and the longitudinal axis is then
  \<open>(0, 0, -1)\<close>.
\<close>

theorem no_rv_orientation:
  assumes "segArray \<noteq> []" and "list_all (\<lambda>s. count_label rvLabel s = 0) segArray"
    and "length (cropROI (map (map (map (\<lambda>v. v = myoLabel))) segArray)) = length segArray"
  shows "getLocalCoords_isInverted segArray rvLabel = Inr (2 \<le> length segArray)
       \<and> getLocalCoords_c_l segArray rvLabel = Inr (0, 0, if 2 \<le> length segArray then - 1 else 1)
       \<and> lvCenter_isInverted segArray rvLabel = Inr False
       \<and> lvCenter cropROI center_of_mass segArray myoLabel rvLabel by_slice =
            (let myo = cropROI (map (map (map (\<lambda>v. v = myoLabel))) segArray)
             in Inr (lvCenter_rows center_of_mass myo by_slice
                       (center_of_mass (myo ! nat (py_round (real (length myo) / 2))))))"
proof -
  have m: "maxRv segArray rvLabel = Inr 0"
    using assms(1,2) by (rule maxRv_no_rv)
  have inv: "getLocalCoords_isInverted segArray rvLabel = Inr (2 \<le> length segArray)"
    using m by (auto simp: getLocalCoords_isInverted_def)
  have lv: "lvCenter_isInverted segArray rvLabel = Inr False"
    using m by (simp add: lvCenter_isInverted_def)
  have n: "0 < length segArray" using assms(1) by simp
  have mid: "nat (py_round (real (length segArray) / 2)) < length segArray"
    using n by (rule py_round_half_less)
  show ?thesis
    using inv lv mid assms(3)
    by (auto simp: getLocalCoords_c_l_def c_l_def lvCenter_def Let_def)
qed

lemma count_seg_no_rv: "list_all (\<lambda>s. count_label 1 s = 0) seg_no_rv"
  by (simp add: seg_no_rv_def count_label_def list_all_iff)

theorem no_rv_orientation_witness:
  "seg_no_rv \<noteq> [] \<and> list_all (\<lambda>s. count_label 1 s = 0) seg_no_rv
   \<and> length ((\<lambda>v. v) (map (map (map (\<lambda>v. v = 2))) seg_no_rv)) = length seg_no_rv
   \<and> getLocalCoords_isInverted seg_no_rv 1 = Inr (2 \<le> length seg_no_rv)
   \<and> getLocalCoords_c_l seg_no_rv 1 = Inr (0, 0, if 2 \<le> length seg_no_rv then - 1 else 1)
   \<and> lvCenter_isInverted seg_no_rv 1 = Inr False
   \<and> lvCenter (\<lambda>v. v) (\<lambda>s. ()) seg_no_rv 2 1 True =
        (let myo = (\<lambda>v. v) (map (map (map (\<lambda>v. v = 2))) seg_no_rv)
         in Inr (lvCenter_rows (\<lambda>s. ()) myo True
                   ((\<lambda>s. ()) (myo ! nat (py_round (real (length myo) / 2))))))"
proof -
  have h1: "seg_no_rv \<noteq> []" by (simp add: seg_no_rv_def)
  have h3: "length ((\<lambda>v. v) (map (map (map (\<lambda>v. v = 2))) seg_no_rv)) = length seg_no_rv"
    by simp
  from no_rv_orientation [of seg_no_rv 1 "\<lambda>v. v" 2 "\<lambda>s. ()" True, OF h1 count_seg_no_rv h3]
    h1 count_seg_no_rv h3
  show ?thesis by (intro conjI) simp_all
qed

text \<open>
  The claim as stated (non-inverted for every consumer) fails for the local frame
  builder: on a volume of 16 slices without a voxel of the right-ventricle label its
  flag is true and the longitudinal axis is \<open>(0, 0, -1)\<close>.
\<close>

theorem no_rv_counterexample:
  "list_all (\<lambda>s. count_label 1 s = 0) seg_no_rv
   \<and> getLocalCoords_isInverted seg_no_rv 1 = Inr True
   \<and> getLocalCoords_c_l seg_no_rv 1 = Inr (0, 0, - 1)"
proof -
  have "seg_no_rv \<noteq> []" by (simp add: seg_no_rv_def)
  then have m: "maxRv seg_no_rv 1 = Inr 0"
    using count_seg_no_rv by (rule maxRv_no_rv)
  have len: "length seg_no_rv = 16" by (simp add: seg_no_rv_def)
  show ?thesis
    by (simp add: count_seg_no_rv getLocalCoords_c_l_def getLocalCoords_isInverted_def m len c_l_def)
qed

section \<open>Properties of the cache and the pipeline\<close>



















lemma done_logic_calls: "estimator_calls done_logic = 2 \<and> model_loads done_logic = 1"
  by (simp add: done_logic_def runStrainPipeline_def ready_logic_def init_logic_def
      compute_strain_def getMotion_def ensure_model_def stub_env_def upt_rec fetch_strain_def)








section \<open>Properties of the query interface\<close>


















end
